theory Spec2Isabelle
  imports Main
begin

section \<open>Syntax trees, as far as the generator inspects them\<close>

text \<open>
  The generator reads the trees that \<^verbatim>\<open>go/parser\<close> builds. Only the node shapes that
  \<^verbatim>\<open>tmpl/methods.go\<close> looks at are kept, with the fields it reads:
  \<^item> an identifier is its name;
  \<^item> \<^verbatim>\<open>ArrayType\<close> has an optional length (absent for a slice) and an element type;
  \<^item> \<^verbatim>\<open>SelectorExpr\<close> has an operand and the selected identifier;
  \<^item> \<^verbatim>\<open>InterfaceType\<close> has its member list \<^verbatim>\<open>Methods.List\<close>;
  \<^item> \<^verbatim>\<open>FuncType\<close> has \<^verbatim>\<open>Params\<close>, which the parser always allocates, and
    \<^verbatim>\<open>Results\<close>, a pointer that is nil when the signature has no result list;
  \<^item> a field (\<^verbatim>\<open>ast.Field\<close>) has a list of names, empty for an anonymous slot or an
    embedded type, and a type expression.
\<close>

datatype expr =
    Ident string
  | ArrayType "expr option" expr
  | MapType expr expr
  | SelectorExpr expr string
  | StarExpr expr
  | InterfaceType "astField list"
  | FuncType "astField list" "astField list option"
  | StructType "astField list"
  | ChanType expr
  | Ellipsis expr
  | ParenExpr expr
and astField = AstField (fieldNames: "string list") (fieldType: expr)

datatype spec =
    TypeSpec string expr
  | ImportSpec string
  | ValueSpec "string list"

datatype decl =
    GenDecl "spec list"
  | FuncDecl string
  | BadDecl

record File =
  Name :: string
  Decls :: "decl list"

section \<open>The method extractor (tmpl/methods.go)\<close>

record MethodField =
  Names :: "string list"
  Type :: string

record Method =
  Name :: string
  Params :: "MethodField list"
  Results :: "MethodField list"

text \<open>
  The run-time panics: the extractor can raise the first two, \<^verbatim>\<open>Build\<close> raises the
  third when the template cannot be read.
\<close>

datatype panic = NilDereference | IndexOutOfRange | ReadFileError

text \<open>
  \<^verbatim>\<open>fmt.Sprintf("%s", e)\<close> for an expression operand: \<^verbatim>\<open>*ast.Ident\<close> has a
  \<^verbatim>\<open>String\<close> method, which gives its name; every other node is printed by the
  reflective printer of package \<^verbatim>\<open>fmt\<close>, which is not part of this repository and is
  the parameter \<open>dump\<close>.
\<close>

fun Sprint_s :: "(expr \<Rightarrow> string) \<Rightarrow> expr \<Rightarrow> string" where
  "Sprint_s dump (Ident n) = n"
| "Sprint_s dump e = dump e"

fun getTypeString :: "(expr \<Rightarrow> string) \<Rightarrow> expr \<Rightarrow> string" where
  "getTypeString dump (ArrayType len elt) = ''[]'' @ getTypeString dump elt"
| "getTypeString dump (MapType k v) = ''map['' @ Sprint_s dump k @ '']'' @ Sprint_s dump v"
| "getTypeString dump (SelectorExpr x sel) = Sprint_s dump x @ ''.'' @ sel"
| "getTypeString dump (StarExpr x) = ''*'' @ getTypeString dump x"
| "getTypeString dump e = Sprint_s dump e"

text \<open>
  The inner loop of \<^verbatim>\<open>extractFieldsFromAst\<close> allocates a slice of \<open>len(item.Names)\<close>
  strings and fills position \<open>i\<close> with the name of \<open>item.Names[i]\<close>.
\<close>

definition copyNames :: "string list \<Rightarrow> string list" where
  "copyNames names = map (\<lambda>i. names ! i) [0..<length names]"

definition extractFieldsFromAst :: "(expr \<Rightarrow> string) \<Rightarrow> astField list \<Rightarrow> MethodField list" where
  "extractFieldsFromAst dump items =
     map (\<lambda>item. \<lparr>Names = copyNames (fieldNames item),
                  Type = getTypeString dump (fieldType item)\<rparr>) items"

text \<open>
  \<^verbatim>\<open>fnDesl.Results.List\<close> reads through the \<^verbatim>\<open>Results\<close> pointer: when it is nil the
  read panics, after the parameters have been extracted.
\<close>

definition extractParamsAndResults ::
  "(expr \<Rightarrow> string) \<Rightarrow> astField list \<Rightarrow> astField list option
     \<Rightarrow> panic + (MethodField list \<times> MethodField list)" where
  "extractParamsAndResults dump ps rs =
     (let params = extractFieldsFromAst dump ps in
      case rs of
        None \<Rightarrow> Inl NilDereference
      | Some rl \<Rightarrow> Inr (params, extractFieldsFromAst dump rl))"

text \<open>The loop over the members of one matching interface; \<open>out\<close> is the slice built so far.\<close>

fun methodLoop :: "(expr \<Rightarrow> string) \<Rightarrow> Method list \<Rightarrow> astField list \<Rightarrow> panic + Method list" where
  "methodLoop dump out [] = Inr out"
| "methodLoop dump out (field # rest) =
     (case fieldType field of
        FuncType ps rs \<Rightarrow>
          (case extractParamsAndResults dump ps rs of
             Inl e \<Rightarrow> Inl e
           | Inr (params, results) \<Rightarrow>
               (case fieldNames field of
                  [] \<Rightarrow> Inl IndexOutOfRange
                | n # _ \<Rightarrow>
                    methodLoop dump
                      (out @ [\<lparr>Name = n, Params = params, Results = results\<rparr>]) rest))
      | _ \<Rightarrow> methodLoop dump out rest)"

text \<open>The loop over the specs of one general declaration.\<close>

fun specLoop :: "(expr \<Rightarrow> string) \<Rightarrow> string \<Rightarrow> Method list \<Rightarrow> spec list \<Rightarrow> panic + Method list" where
  "specLoop dump typeName out [] = Inr out"
| "specLoop dump typeName out (TypeSpec name (InterfaceType members) # rest) =
     (if name \<noteq> typeName then specLoop dump typeName out rest
      else case methodLoop dump out members of
             Inl e \<Rightarrow> Inl e
           | Inr out' \<Rightarrow> specLoop dump typeName out' rest)"
| "specLoop dump typeName out (_ # rest) = specLoop dump typeName out rest"

text \<open>The loop over the top-level declarations of the file.\<close>

fun declLoop :: "(expr \<Rightarrow> string) \<Rightarrow> string \<Rightarrow> Method list \<Rightarrow> decl list \<Rightarrow> panic + Method list" where
  "declLoop dump typeName out [] = Inr out"
| "declLoop dump typeName out (GenDecl specs # rest) =
     (case specLoop dump typeName out specs of
        Inl e \<Rightarrow> Inl e
      | Inr out' \<Rightarrow> declLoop dump typeName out' rest)"
| "declLoop dump typeName out (_ # rest) = declLoop dump typeName out rest"

definition GetMethods :: "(expr \<Rightarrow> string) \<Rightarrow> File \<Rightarrow> string \<Rightarrow> panic + Method list" where
  "GetMethods dump file typeName = declLoop dump typeName [] (Decls file)"

text \<open>
  The same recursion with nothing assumed about its termination: a call that did not
  return would have the value \<open>None\<close>.
\<close>

partial_function (option) getTypeString_run :: "(expr \<Rightarrow> string) \<Rightarrow> expr \<Rightarrow> string option" where
  "getTypeString_run dump e =
     (case e of
        ArrayType len elt \<Rightarrow>
          Option.bind (getTypeString_run dump elt) (\<lambda>s. Some (''[]'' @ s))
      | MapType k v \<Rightarrow> Some (''map['' @ Sprint_s dump k @ '']'' @ Sprint_s dump v)
      | SelectorExpr x sel \<Rightarrow> Some (Sprint_s dump x @ ''.'' @ sel)
      | StarExpr x \<Rightarrow>
          Option.bind (getTypeString_run dump x) (\<lambda>s. Some (''*'' @ s))
      | _ \<Rightarrow> Some (Sprint_s dump e))"

text \<open>The shapes that \<^verbatim>\<open>getTypeString\<close> has a case for.\<close>

fun speciallyHandled :: "expr \<Rightarrow> bool" where
  "speciallyHandled (ArrayType len elt) = True"
| "speciallyHandled (MapType k v) = True"
| "speciallyHandled (SelectorExpr x sel) = True"
| "speciallyHandled (StarExpr x) = True"
| "speciallyHandled e = False"

text \<open>A pointer or slice/array constructor wrapped around a type, and the text it adds.\<close>

datatype wrapper = PointerTo | SliceOf "expr option"

fun wrap :: "wrapper \<Rightarrow> expr \<Rightarrow> expr" where
  "wrap PointerTo t = StarExpr t"
| "wrap (SliceOf len) t = ArrayType len t"

fun wrapperText :: "wrapper \<Rightarrow> string" where
  "wrapperText PointerTo = ''*''"
| "wrapperText (SliceOf len) = ''[]''"

section \<open>Strings and paths of the Go standard library\<close>

text \<open>
  Go strings are byte sequences. The functions of packages \<^verbatim>\<open>strings\<close> and
  \<^verbatim>\<open>path/filepath\<close> that the generator calls are modelled after their documentation,
  \<^verbatim>\<open>filepath\<close> for a platform whose separator is the slash.
\<close>

definition HasPrefix :: "string \<Rightarrow> string \<Rightarrow> bool" where
  "HasPrefix s pre = (length pre \<le> length s \<and> take (length pre) s = pre)"

definition HasSuffix :: "string \<Rightarrow> string \<Rightarrow> bool" where
  "HasSuffix s suf = (length suf \<le> length s \<and> drop (length s - length suf) s = suf)"

fun Contains :: "string \<Rightarrow> string \<Rightarrow> bool" where
  "Contains [] substr = (substr = [])"
| "Contains (c # cs) substr = (HasPrefix (c # cs) substr \<or> Contains cs substr)"

text \<open>
  \<^verbatim>\<open>strings.Split(s, sep)\<close> for a separator of one byte: \<open>cur\<close> is the token being read.
\<close>

fun splitFrom :: "char \<Rightarrow> string \<Rightarrow> string \<Rightarrow> string list" where
  "splitFrom sep cur [] = [cur]"
| "splitFrom sep cur (c # cs) =
     (if c = sep then cur # splitFrom sep [] cs else splitFrom sep (cur @ [c]) cs)"

definition Split :: "string \<Rightarrow> char \<Rightarrow> string list" where
  "Split s sep = splitFrom sep [] s"

fun strings_Join :: "string list \<Rightarrow> string \<Rightarrow> string" where
  "strings_Join [] sep = []"
| "strings_Join [e] sep = e"
| "strings_Join (e # es) sep = e @ sep @ strings_Join es sep"

text \<open>
  \<^verbatim>\<open>strings.ToLower\<close>: a string of ASCII bytes is lower-cased byte by byte; any other
  string is mapped rune by rune through \<^verbatim>\<open>unicode.ToLower\<close>, the parameter \<open>umap\<close>.
\<close>

definition isASCII :: "char \<Rightarrow> bool" where
  "isASCII c = (of_char c < (128::nat))"

definition lowerByte :: "char \<Rightarrow> char" where
  "lowerByte c =
     (if (65::nat) \<le> of_char c \<and> of_char c \<le> (90::nat)
      then char_of (of_char c + (32::nat)) else c)"

definition ToLower :: "(string \<Rightarrow> string) \<Rightarrow> string \<Rightarrow> string" where
  "ToLower umap s = (if list_all isASCII s then map lowerByte s else umap s)"

text \<open>
  \<^verbatim>\<open>filepath.Clean\<close>, element by element: empty elements and \<open>.\<close> are dropped; \<open>..\<close>
  removes the element before it when there is one that is not itself \<open>..\<close>, is dropped
  at the root, and is kept at the front of a relative path. The result of an empty
  path, or of one that cleans to nothing, is \<open>.\<close>.
\<close>

definition cleanStep :: "bool \<Rightarrow> string list \<Rightarrow> string \<Rightarrow> string list" where
  "cleanStep rooted st el =
     (if el = [] \<or> el = ''.'' then st
      else if el = ''..'' then
        (if st \<noteq> [] \<and> last st \<noteq> ''..'' then butlast st
         else if rooted then st
         else st @ [''..''])
      else st @ [el])"

definition isRooted :: "string \<Rightarrow> bool" where
  "isRooted path = (case path of [] \<Rightarrow> False | c # cs \<Rightarrow> c = CHR ''/'')"

definition cleanElems :: "string \<Rightarrow> string list" where
  "cleanElems path = foldl (cleanStep (isRooted path)) [] (Split path CHR ''/'')"

definition renderPath :: "bool \<Rightarrow> string list \<Rightarrow> string" where
  "renderPath rooted els =
     (let out = (if rooted then ''/'' else []) @ strings_Join els ''/''
      in if out = [] then ''.'' else out)"

definition Clean :: "string \<Rightarrow> string" where
  "Clean path = (if path = [] then ''.'' else renderPath (isRooted path) (cleanElems path))"

text \<open>
  \<^verbatim>\<open>filepath.Join\<close> ignores leading empty elements, joins the rest with the separator and
  cleans the result; with no non-empty element the result is empty.
\<close>

fun filepath_Join :: "string list \<Rightarrow> string" where
  "filepath_Join [] = []"
| "filepath_Join (e # es) =
     (if e \<noteq> [] then Clean (strings_Join (e # es) ''/'') else filepath_Join es)"

text \<open>
  \<^verbatim>\<open>filepath.Dir\<close>: everything up to and including the last separator, cleaned.
\<close>

definition Dir :: "string \<Rightarrow> string" where
  "Dir path = Clean (rev (dropWhile (\<lambda>c. c \<noteq> CHR ''/'') (rev path)))"

section \<open>The generator (gonerator/gonerator.go)\<close>

text \<open>
  Modelled from the spec: the declarations of \<^verbatim>\<open>tmpl.Field\<close> and \<^verbatim>\<open>tmpl.TemplateData\<close>
  are not among the sources. A field has a name, the text of its type and the text of
  its tag; the template data has the fields that \<^verbatim>\<open>Build\<close> assigns.
\<close>

record tmplField =
  FieldName :: string
  FieldType :: string
  FieldTag :: string

record TemplateData =
  TypeName :: string
  TemplateFile :: string
  OutputFile :: string
  PackageName :: string
  Fields :: "tmplField list"
  Methods :: "Method list"
  Extras :: "string list"

text \<open>
  The package as \<^verbatim>\<open>parsePackage\<close> fills it in. Its declaration is not among the sources;
  the fields are the ones assigned there: \<open>name\<close>, \<open>dir\<close>, \<open>files\<close> (which wraps each
  parsed file) and \<open>astFiles\<close>.
\<close>

record Package =
  pkgName :: string
  pkgDir :: string
  pkgFiles :: "File list"
  astFiles :: "File list"

record Gonerator =
  buf :: string
  pkg :: "Package option"
  data :: TemplateData

text \<open>
  What lies outside the program: the contents of the files that can be read or have been
  written, by path, and the lines sent to the logger.
\<close>

record world =
  fileContent :: "string \<rightharpoonup> string"
  logged :: "string list"

text \<open>
  The collaborators that are not part of the sources, as parameters:
  \<^item> \<open>dumpExpr\<close>: the reflective \<open>%s\<close> printing of a syntax node by package \<^verbatim>\<open>fmt\<close>;
  \<^item> \<open>unicodeLower\<close>: \<^verbatim>\<open>strings.ToLower\<close> on strings that are not ASCII;
  \<^item> \<open>Fprintf0\<close>: what \<^verbatim>\<open>fmt.Fprintf\<close> writes for a format string with no operands;
  \<^item> \<open>GetFields\<close>: \<^verbatim>\<open>tmpl.GetFields\<close>;
  \<^item> \<open>Generate\<close>: \<^verbatim>\<open>tmpl.Generate\<close>, the rendered text, or \<open>None\<close> when rendering
    aborts the run;
  \<^item> \<open>formatSource\<close>: \<^verbatim>\<open>format.Source\<close>, the formatted text or an error message;
  \<^item> \<open>MkdirAll\<close> and \<open>WriteFile\<close>: the error of the call for a path, if any;
  \<^item> \<open>ParseFile\<close>: \<^verbatim>\<open>parser.ParseFile\<close>, the parsed file or an error message;
  \<^item> \<open>ImportDir\<close>: the \<^verbatim>\<open>GoFiles\<close> of \<^verbatim>\<open>build.Default.ImportDir\<close> or an error message.
\<close>

record env =
  dumpExpr :: "expr \<Rightarrow> string"
  unicodeLower :: "string \<Rightarrow> string"
  Fprintf0 :: "string \<Rightarrow> string"
  GetFields :: "File \<Rightarrow> string \<Rightarrow> tmplField list"
  Generate :: "TemplateData \<Rightarrow> string \<Rightarrow> string option"
  formatSource :: "string \<Rightarrow> string + string"
  MkdirAll :: "string \<Rightarrow> string option"
  WriteFile :: "string \<Rightarrow> string option"
  ParseFile :: "string \<Rightarrow> string + File"
  ImportDir :: "string \<Rightarrow> string + string list"

text \<open>
  How a call ends: it returns, it panics, the process exits with a status
  (\<^verbatim>\<open>log.Fatalf\<close> exits with status 1), or the renderer aborts the run.
\<close>

datatype outcome = Completed | Panicked panic | Exited int | RenderAborted

definition isGo :: "string \<Rightarrow> bool" where
  "isGo filename = Contains filename ''.go''"

text \<open>
  The header. Its format strings hold no verb other than the \<open>%s\<close> that takes the
  string operand, so the text written is the format with the operand in its place.
\<close>

definition headerText :: "TemplateData \<Rightarrow> string" where
  "headerText d =
     ''// Code gonerated by '' @ [CHR 0x22] @ ''github.com/myteksi/go/tools/gonerator''
       @ [CHR 0x22, CHR 0x0A] @ ''// DO NOT EDIT'' @ [CHR 0x0A]
     @ ''// @generated '' @ [CHR 0x0A]
     @ ''//'' @ [CHR 0x0A]
     @ ''// Args:'' @ [CHR 0x0A]
     @ ''// TypeName: '' @ TypeName d @ [CHR 0x0A]
     @ ''// Template: '' @ TemplateFile d @ [CHR 0x0A]
     @ ''// Destination: '' @ OutputFile d @ [CHR 0x0A]
     @ [CHR 0x0A]"

definition buildHeader :: "Gonerator \<Rightarrow> Gonerator" where
  "buildHeader g =
     (if isGo (OutputFile (data g)) then g\<lparr>buf := buf g @ headerText (data g)\<rparr> else g)"

text \<open>The loop of \<^verbatim>\<open>findTypeFields\<close> over the parsed files of the package.\<close>

fun findLoop :: "env \<Rightarrow> Gonerator \<Rightarrow> File list \<Rightarrow> panic + Gonerator" where
  "findLoop e g [] = Inr g"
| "findLoop e g (file # rest) =
     (let fields = GetFields e file (TypeName (data g));
          g1 = (if length fields > 0
                then g\<lparr>data := (data g)\<lparr>Fields := Fields (data g) @ fields\<rparr>\<rparr> else g)
      in case GetMethods (dumpExpr e) file (TypeName (data g1)) of
           Inl p \<Rightarrow> Inl p
         | Inr methods \<Rightarrow>
             findLoop e
               (if length methods > 0
                then g1\<lparr>data := (data g1)\<lparr>Methods := Methods (data g1) @ methods\<rparr>\<rparr>
                else g1) rest)"

definition findTypeFields :: "env \<Rightarrow> Gonerator \<Rightarrow> panic + Gonerator" where
  "findTypeFields e g =
     (case pkg g of
        None \<Rightarrow> Inl NilDereference
      | Some p \<Rightarrow> findLoop e g (astFiles p))"

definition buildTemplateData :: "env \<Rightarrow> Gonerator \<Rightarrow> string \<Rightarrow> panic + Gonerator" where
  "buildTemplateData e g extras =
     (case findTypeFields e g of
        Inl p \<Rightarrow> Inl p
      | Inr g1 \<Rightarrow>
          (let g2 = g1\<lparr>data := (data g1)\<lparr>Extras := Split extras CHR '',''\<rparr>\<rparr>
           in case pkg g2 of
                None \<Rightarrow> Inl NilDereference
              | Some p \<Rightarrow> Inr (g2\<lparr>data := (data g2)\<lparr>PackageName := pkgName p\<rparr>\<rparr>)))"

text \<open>
  \<^verbatim>\<open>generate\<close> renders into a fresh buffer and hands the rendered text to \<^verbatim>\<open>printf\<close> as
  the format string, with no operands.
\<close>

definition generate :: "env \<Rightarrow> Gonerator \<Rightarrow> string \<Rightarrow> Gonerator option" where
  "generate e g templateContent =
     (case Generate e (data g) templateContent of
        None \<Rightarrow> None
      | Some rendered \<Rightarrow> Some (g\<lparr>buf := buf g @ Fprintf0 e rendered\<rparr>))"

definition formatWarnings :: "string \<Rightarrow> string \<Rightarrow> string list" where
  "formatWarnings outputFile err =
     [''['' @ outputFile @ ''] warning: internal error: invalid Go gonerated: '' @ err,
      ''['' @ outputFile @ ''] warning: compile the package to analyze the error'']"

text \<open>\<^verbatim>\<open>format\<close> returns the bytes to write and the formatter's error, if any.\<close>

definition format :: "env \<Rightarrow> Gonerator \<Rightarrow> world \<Rightarrow> (string \<times> string option) \<times> world" where
  "format e g w =
     (case formatSource e (buf g) of
        Inl err \<Rightarrow>
          ((buf g, Some err),
           w\<lparr>logged := logged w @ formatWarnings (OutputFile (data g)) err\<rparr>)
      | Inr src \<Rightarrow> ((src, None), w))"

definition toBytes :: "Gonerator \<Rightarrow> string" where
  "toBytes g = buf g"

definition outputName :: "env \<Rightarrow> string \<Rightarrow> string \<Rightarrow> string" where
  "outputName e dir filename = filepath_Join [dir, ToLower (unicodeLower e) filename]"

text \<open>
  \<^verbatim>\<open>writeFile\<close> either ends the process (left) or returns the error of the formatter,
  if any (right).
\<close>

definition writeFile ::
  "env \<Rightarrow> Gonerator \<Rightarrow> world \<Rightarrow> string \<Rightarrow> string \<Rightarrow> string
     \<Rightarrow> (outcome + string option) \<times> world" where
  "writeFile e g w dir filename typeName =
     (let ((src, errOut), w1) =
            (if isGo filename then format e g w else ((toBytes g, None), w));
          outName = outputName e dir filename;
          directory = Dir outName
      in case MkdirAll e directory of
           Some err \<Rightarrow>
             (Inl (Exited 1),
              w1\<lparr>logged := logged w1 @
                 [''['' @ OutputFile (data g) @ ''] error creating destination directory: '' @ err]\<rparr>)
         | None \<Rightarrow>
             (case WriteFile e outName of
                Some err \<Rightarrow>
                  (Inl (Exited 1),
                   w1\<lparr>logged := logged w1 @
                      [''['' @ OutputFile (data g) @ ''] error writing output: '' @ err]\<rparr>)
              | None \<Rightarrow>
                  (Inr errOut, w1\<lparr>fileContent := (fileContent w1)(outName \<mapsto> src)\<rparr>)))"

text \<open>The local variable \<open>path\<close> of \<^verbatim>\<open>Build\<close>: where the template is read from.\<close>

definition templatePath :: "string \<Rightarrow> string \<Rightarrow> string" where
  "templatePath dir templateFile =
     (if \<not> HasPrefix templateFile ''/'' then dir @ templateFile else templateFile)"

text \<open>
  \<^verbatim>\<open>Build\<close> up to the call of \<^verbatim>\<open>writeFile\<close>: the data is reset, the header is written,
  the template is read, the template data is built and the template is rendered. The
  result is how the run ended, with the generator as it was then (left), or the
  generator that goes on to \<^verbatim>\<open>writeFile\<close> (right).
\<close>

definition Build_render ::
  "env \<Rightarrow> Gonerator \<Rightarrow> world \<Rightarrow> string \<Rightarrow> string \<Rightarrow> string \<Rightarrow> string \<Rightarrow> string
     \<Rightarrow> (outcome \<times> Gonerator) + Gonerator" where
  "Build_render e g w dir typeName templateFile outputFile extras =
     (let g1 = g\<lparr>data := \<lparr>TypeName = typeName, TemplateFile = templateFile,
                            OutputFile = outputFile, PackageName = [],
                            Fields = [], Methods = [], Extras = []\<rparr>\<rparr>;
          g2 = buildHeader g1;
          path = templatePath dir templateFile
      in case fileContent w path of
           None \<Rightarrow> Inl (Panicked ReadFileError, g2)
         | Some templateContent \<Rightarrow>
             (case buildTemplateData e g2 extras of
                Inl p \<Rightarrow> Inl (Panicked p, g2)
              | Inr g3 \<Rightarrow>
                  (case generate e g3 templateContent of
                     None \<Rightarrow> Inl (RenderAborted, g3)
                   | Some g4 \<Rightarrow> Inr g4)))"

text \<open>
  \<^verbatim>\<open>Build\<close>: when \<^verbatim>\<open>writeFile\<close> returns an error, the process exits with status \<open>-1\<close>.
\<close>

definition Build ::
  "env \<Rightarrow> Gonerator \<Rightarrow> world \<Rightarrow> string \<Rightarrow> string \<Rightarrow> string \<Rightarrow> string \<Rightarrow> string
     \<Rightarrow> outcome \<times> Gonerator \<times> world" where
  "Build e g w dir typeName templateFile outputFile extras =
     (case Build_render e g w dir typeName templateFile outputFile extras of
        Inl (out, g') \<Rightarrow> (out, g', w)
      | Inr g4 \<Rightarrow>
          (case writeFile e g4 w dir outputFile typeName of
             (Inl out, w') \<Rightarrow> (out, g4, w')
           | (Inr (Some err), w') \<Rightarrow> (Exited (- 1), g4, w')
           | (Inr None, w') \<Rightarrow> (Completed, g4, w')))"

definition prefixDirectory :: "string \<Rightarrow> string list \<Rightarrow> string list" where
  "prefixDirectory directory names =
     (if directory = ''.'' then names
      else map (\<lambda>name. filepath_Join [directory, name]) names)"

text \<open>
  The loop of \<^verbatim>\<open>parsePackage\<close>: names without the suffix \<open>.go\<close> are skipped, the first
  file that does not parse ends the process (left: its name and the error).
  \<^verbatim>\<open>parsePackage\<close> starts from a fresh, empty package and fills it in after the loop.
\<close>

fun parseLoop :: "env \<Rightarrow> File list \<Rightarrow> string list \<Rightarrow> (string \<times> string) + File list" where
  "parseLoop e parsed [] = Inr parsed"
| "parseLoop e parsed (n # rest) =
     (if \<not> HasSuffix n ''.go'' then parseLoop e parsed rest
      else case ParseFile e n of
             Inl err \<Rightarrow> Inl (n, err)
           | Inr parsedFile \<Rightarrow> parseLoop e (parsed @ [parsedFile]) rest)"

definition parsePackage ::
  "env \<Rightarrow> Gonerator \<Rightarrow> world \<Rightarrow> string \<Rightarrow> string list \<Rightarrow> outcome \<times> Gonerator \<times> world" where
  "parsePackage e g w directory names =
     (let g0 = g\<lparr>pkg := Some \<lparr>pkgName = [], pkgDir = [], pkgFiles = [], astFiles = []\<rparr>\<rparr>
      in case parseLoop e [] names of
           Inl (n, err) \<Rightarrow>
             (Exited 1, g0,
              w\<lparr>logged := logged w @
                 [''['' @ OutputFile (data g) @ ''] parsing package: '' @ n @ '': '' @ err]\<rparr>)
         | Inr parsed \<Rightarrow>
             (case parsed of
                [] \<Rightarrow>
                  (Exited 1, g0,
                   w\<lparr>logged := logged w @
                      [''['' @ OutputFile (data g) @ ''] '' @ directory
                         @ '': no buildable Go files'']\<rparr>)
              | first # others \<Rightarrow>
                  (Completed,
                   g0\<lparr>pkg := Some \<lparr>pkgName = File.Name first, pkgDir = directory,
                                     pkgFiles = parsed, astFiles = parsed\<rparr>\<rparr>,
                   w)))"

definition ParsePackageDir ::
  "env \<Rightarrow> Gonerator \<Rightarrow> world \<Rightarrow> string \<Rightarrow> outcome \<times> Gonerator \<times> world" where
  "ParsePackageDir e g w directory =
     (case ImportDir e directory of
        Inl err \<Rightarrow>
          (Exited 1, g,
           w\<lparr>logged := logged w @
              [''['' @ OutputFile (data g) @ ''] cannot process directory '' @ directory
                 @ '': '' @ err]\<rparr>)
      | Inr goFiles \<Rightarrow> parsePackage e g w directory (prefixDirectory directory goFiles))"

section \<open>What a file declares, for comparison with the extractor\<close>

text \<open>
  The members, in declared order, of every interface type declaration of the file whose
  name is the requested one.
\<close>

fun specMembers :: "string \<Rightarrow> spec \<Rightarrow> astField list" where
  "specMembers typeName (TypeSpec n (InterfaceType members)) =
     (if n = typeName then members else [])"
| "specMembers typeName other = []"

fun declMembers :: "string \<Rightarrow> decl \<Rightarrow> astField list" where
  "declMembers typeName (GenDecl specs) = concat (map (specMembers typeName) specs)"
| "declMembers typeName other = []"

definition interfaceMembers :: "File \<Rightarrow> string \<Rightarrow> astField list" where
  "interfaceMembers file typeName = concat (map (declMembers typeName) (Decls file))"

text \<open>A member is a method when its type is a function signature; otherwise it is an
  embedded type.\<close>

fun isMethodMember :: "astField \<Rightarrow> bool" where
  "isMethodMember (AstField ns (FuncType ps rs)) = True"
| "isMethodMember other = False"

text \<open>
  A method member as the parser builds it carries its name; \<open>namedWithResultList\<close> asks in
  addition that the signature has a result list (which may be empty).
\<close>

fun namedWithResultList :: "astField \<Rightarrow> bool" where
  "namedWithResultList (AstField ns (FuncType ps rs)) = (ns \<noteq> [] \<and> rs \<noteq> None)"
| "namedWithResultList other = True"

text \<open>
  The extracted slots \<open>mfs\<close> agree with the declared slots \<open>fs\<close>: as many, in the same order,
  each with the declared sequence of names and the text of the declared type.
\<close>

definition slotsOf :: "(expr \<Rightarrow> string) \<Rightarrow> astField list \<Rightarrow> MethodField list \<Rightarrow> bool" where
  "slotsOf dump fs mfs =
     list_all2 (\<lambda>f mf. Names mf = fieldNames f \<and> Type mf = getTypeString dump (fieldType f))
       fs mfs"

text \<open>The extracted method \<open>m\<close> agrees with the declared method member.\<close>

fun methodOf :: "(expr \<Rightarrow> string) \<Rightarrow> astField \<Rightarrow> Method \<Rightarrow> bool" where
  "methodOf dump (AstField (n # ns) (FuncType ps (Some rs))) m =
     (Method.Name m = n \<and> slotsOf dump ps (Params m) \<and> slotsOf dump rs (Results m))"
| "methodOf dump other m = False"

text \<open>The record built for a named method member with a result list.\<close>

fun toMethod :: "(expr \<Rightarrow> string) \<Rightarrow> astField \<Rightarrow> Method" where
  "toMethod dump (AstField (n # ns) (FuncType ps (Some rs))) =
     \<lparr>Name = n, Params = extractFieldsFromAst dump ps, Results = extractFieldsFromAst dump rs\<rparr>"
| "toMethod dump other = \<lparr>Name = [], Params = [], Results = []\<rparr>"

section \<open>Example inputs\<close>

text \<open>
  \<^verbatim>\<open>type Reader interface { Read(p []byte) (n int, err error); io.Closer; Reset() ();
  Peek(int) ([]byte, error) }\<close>
\<close>

definition readerFile :: File where
  "readerFile =
     \<lparr>File.Name = ''stream'',
      Decls =
        [GenDecl [ImportSpec ''io''],
         GenDecl
           [TypeSpec ''Reader''
              (InterfaceType
                 [AstField [''Read'']
                    (FuncType [AstField [''p''] (ArrayType None (Ident ''byte''))]
                       (Some [AstField [''n''] (Ident ''int''),
                              AstField [''err''] (Ident ''error'')])),
                  AstField [] (SelectorExpr (Ident ''io'') ''Closer''),
                  AstField [''Reset''] (FuncType [] (Some [])),
                  AstField [''Peek'']
                    (FuncType [AstField [] (Ident ''int'')]
                       (Some [AstField [] (ArrayType None (Ident ''byte'')),
                              AstField [] (Ident ''error'')]))])]]\<rparr>"

text \<open>\<^verbatim>\<open>type ReadCloser interface { io.Reader; Close() error }\<close>\<close>

definition readCloserFile :: File where
  "readCloserFile =
     \<lparr>File.Name = ''stream'',
      Decls =
        [GenDecl
           [TypeSpec ''ReadCloser''
              (InterfaceType
                 [AstField [] (SelectorExpr (Ident ''io'') ''Reader''),
                  AstField [''Close'']
                    (FuncType [] (Some [AstField [] (Ident ''error'')]))])]]\<rparr>"

text \<open>\<^verbatim>\<open>type Closer interface { Close() }\<close>: the signature has no result list.\<close>

definition closerFile :: File where
  "closerFile =
     \<lparr>File.Name = ''stream'',
      Decls = [GenDecl [TypeSpec ''Closer'' (InterfaceType [AstField [''Close''] (FuncType [] None)])]]\<rparr>"

definition noDump :: "expr \<Rightarrow> string" where
  "noDump e = ''&{}''"

text \<open>A second file of the directory, which declares another package name.\<close>

definition otherFile :: File where
  "otherFile = \<lparr>File.Name = ''stream_test'', Decls = []\<rparr>"

text \<open>
  Collaborators for the examples: the directory \<open>pkg\<close> holds \<open>a.go\<close> and \<open>b.go\<close>, the
  renderer appends the type name to the template text, the formatter accepts every text,
  and the file system accepts every directory and every write.
\<close>

definition exampleEnv :: env where
  "exampleEnv =
     \<lparr>dumpExpr = noDump,
      unicodeLower = (\<lambda>s. s),
      Fprintf0 = (\<lambda>s. s),
      GetFields = (\<lambda>file typeName. []),
      Generate = (\<lambda>d templateContent. Some (templateContent @ TypeName d)),
      formatSource = (\<lambda>src. Inr src),
      MkdirAll = (\<lambda>path. None),
      WriteFile = (\<lambda>path. None),
      ParseFile = (\<lambda>n. if n = ''pkg/a.go'' then Inr readerFile
                        else if n = ''pkg/b.go'' then Inr otherFile
                        else Inl ''no such file''),
      ImportDir = (\<lambda>d. if d = ''pkg'' then Inr [''a.go'', ''b.go''] else Inl ''no Go files'')\<rparr>"

text \<open>The same collaborators with a formatter that rejects every text.\<close>

definition rejectingEnv :: env where
  "rejectingEnv = exampleEnv\<lparr>formatSource := (\<lambda>src. Inl ''1:1: expected package'')\<rparr>"

definition emptyData :: TemplateData where
  "emptyData =
     \<lparr>TypeName = [], TemplateFile = [], OutputFile = [], PackageName = [],
      Fields = [], Methods = [], Extras = []\<rparr>"

definition newGonerator :: Gonerator where
  "newGonerator = \<lparr>buf = [], pkg = None, data = emptyData\<rparr>"

text \<open>The generator after the package of \<open>readerFile\<close> and \<open>otherFile\<close> has been parsed.\<close>

definition parsedGonerator :: Gonerator where
  "parsedGonerator =
     newGonerator\<lparr>pkg := Some \<lparr>pkgName = ''stream'', pkgDir = ''pkg'',
                                  pkgFiles = [readerFile, otherFile],
                                  astFiles = [readerFile, otherFile]\<rparr>\<rparr>"

text \<open>A world whose only file is the template \<open>pkg/mock.tmpl\<close>.\<close>

definition exampleWorld :: world where
  "exampleWorld = \<lparr>fileContent = [''pkg/mock.tmpl'' \<mapsto> ''package stream // mock of ''], logged = []\<rparr>"

text \<open>The data of a run whose destination is an HTML template.\<close>

definition htmlData :: TemplateData where
  "htmlData = emptyData\<lparr>TypeName := ''Page'', TemplateFile := ''mock.tmpl'',
                         OutputFile := ''page.gohtml''\<rparr>"

text \<open>A world whose only file is the template \<open>/src/pkg/mock.tmpl\<close>.\<close>

definition srcWorld :: world where
  "srcWorld = \<lparr>fileContent = [''/src/pkg/mock.tmpl'' \<mapsto> ''package stream''], logged = []\<rparr>"

section \<open>Properties of the type-expression stringifier\<close>

lemma getTypeString_wrap:
  "getTypeString dump (wrap w t) = wrapperText w @ getTypeString dump t"
  by (cases w) simp_all

lemma getTypeString_nested:
  "getTypeString dump (foldr wrap ws t) = concat (map wrapperText ws) @ getTypeString dump t"
  by (induction ws) (simp_all add: getTypeString_wrap)

text \<open>
  Claim C2. For every type expression \<open>T\<close>, the text of a pointer to \<open>T\<close> is \<open>*\<close>
  followed by the text of \<open>T\<close>, and the text of a slice or array of \<open>T\<close> is \<open>[]\<close>
  followed by the text of \<open>T\<close>; this holds at every nesting depth: any stack \<open>ws\<close> of
  pointer and slice constructors around \<open>T\<close> renders as the texts of the constructors,
  outermost first, followed by the text of \<open>T\<close>. A slice of pointers to slices of
  \<open>int\<close> renders as \<open>[]*[]int\<close>.
\<close>

theorem getTypeString_pointer_slice:
  "getTypeString dump (StarExpr T) = ''*'' @ getTypeString dump T
   \<and> getTypeString dump (ArrayType len T) = ''[]'' @ getTypeString dump T
   \<and> getTypeString dump (foldr wrap ws T) = concat (map wrapperText ws) @ getTypeString dump T
   \<and> getTypeString dump (ArrayType None (StarExpr (ArrayType None (Ident ''int'')))) = ''[]*[]int''"
  by (simp add: getTypeString_nested)

lemma getTypeString_run_returns:
  "getTypeString_run dump e = Some (getTypeString dump e)"
  by (induction e) (simp_all add: getTypeString_run.simps)

lemma getTypeString_fallback:
  "\<not> speciallyHandled e \<Longrightarrow> getTypeString dump e = Sprint_s dump e"
  by (cases e) simp_all

text \<open>
  Claim C6. The stringifier is total: on every type expression the recursion of the source
  returns, and what it returns is a string (the one \<open>getTypeString\<close> computes); no branch
  fails. An expression that is not an array, a map, a pointer or a qualified name is
  rendered by the generic \<open>%s\<close> formatting of the expression itself, with no guarantee
  that the text is source text.
\<close>

theorem getTypeString_total:
  "(\<exists>s. getTypeString_run dump e = Some s \<and> getTypeString dump e = s)
   \<and> (\<not> speciallyHandled e \<longrightarrow> getTypeString dump e = Sprint_s dump e)"
  by (simp add: getTypeString_run_returns getTypeString_fallback)

theorem getTypeString_total_witness:
  "(\<exists>s. getTypeString_run (\<lambda>e. ''&{}'') (ChanType (Ident ''int'')) = Some s
        \<and> getTypeString (\<lambda>e. ''&{}'') (ChanType (Ident ''int'')) = s)
   \<and> \<not> speciallyHandled (ChanType (Ident ''int''))
   \<and> getTypeString (\<lambda>e. ''&{}'') (ChanType (Ident ''int'')) = ''&{}''"
  using getTypeString_total [of "\<lambda>e. ''&{}''" "ChanType (Ident ''int'')"] by simp

section \<open>Properties of the method extractor\<close>

lemma copyNames_id: "copyNames ns = ns"
  by (simp add: copyNames_def map_nth)

lemma slotsOf_extract: "slotsOf dump fs (extractFieldsFromAst dump fs)"
  by (simp add: slotsOf_def extractFieldsFromAst_def list_all2_map2 copyNames_id list.rel_refl)

lemma methodOf_toMethod:
  "isMethodMember f \<Longrightarrow> namedWithResultList f \<Longrightarrow> methodOf dump f (toMethod dump f)"
proof -
  assume m: "isMethodMember f" and n: "namedWithResultList f"
  obtain ns t where f: "f = AstField ns t" by (cases f)
  from m f obtain ps rs where t: "t = FuncType ps rs" by (cases t) simp_all
  from n f t obtain n' ns' rl where "ns = n' # ns'" "rs = Some rl"
    by (cases ns; cases rs) simp_all
  with f t show ?thesis by (simp add: slotsOf_extract)
qed

lemma methodLoop_eq:
  "list_all namedWithResultList members \<Longrightarrow>
   methodLoop dump out members = Inr (out @ map (toMethod dump) (filter isMethodMember members))"
proof (induction members arbitrary: out)
  case Nil
  then show ?case by simp
next
  case (Cons f fs)
  obtain ns t where f: "f = AstField ns t" by (cases f)
  show ?case
  proof (cases "isMethodMember f")
    case True
    then obtain ps rs where t: "t = FuncType ps rs"
      using f by (cases t) simp_all
    from Cons.prems f t obtain n ns' rl where ns: "ns = n # ns'" and rs: "rs = Some rl"
      by (cases ns; cases rs) simp_all
    from Cons.prems have "list_all namedWithResultList fs" by simp
    then show ?thesis
      using Cons.IH f t ns rs by (simp add: extractParamsAndResults_def)
  next
    case False
    from Cons.prems have "list_all namedWithResultList fs" by simp
    then show ?thesis
      using Cons.IH False f by (cases t) simp_all
  qed
qed

lemma specLoop_step:
  "specLoop dump typeName out (sp # rest) =
     (case methodLoop dump out (specMembers typeName sp) of
        Inl e \<Rightarrow> Inl e
      | Inr out' \<Rightarrow> specLoop dump typeName out' rest)"
  by (cases "(typeName, sp)" rule: specMembers.cases) simp_all

lemma specLoop_eq:
  "list_all namedWithResultList (concat (map (specMembers typeName) specs)) \<Longrightarrow>
   specLoop dump typeName out specs =
     Inr (out @ map (toMethod dump)
                  (filter isMethodMember (concat (map (specMembers typeName) specs))))"
proof (induction specs arbitrary: out)
  case Nil
  then show ?case by simp
next
  case (Cons sp rest)
  from Cons.prems have a: "list_all namedWithResultList (specMembers typeName sp)"
    and b: "list_all namedWithResultList (concat (map (specMembers typeName) rest))"
    by simp_all
  show ?case
    by (simp only: specLoop_step methodLoop_eq [OF a] Cons.IH [OF b]) simp
qed

lemma declLoop_eq:
  "list_all namedWithResultList (concat (map (declMembers typeName) decls)) \<Longrightarrow>
   declLoop dump typeName out decls =
     Inr (out @ map (toMethod dump)
                  (filter isMethodMember (concat (map (declMembers typeName) decls))))"
proof (induction decls arbitrary: out)
  case Nil
  then show ?case by simp
next
  case (Cons d rest)
  from Cons.prems have a: "list_all namedWithResultList (declMembers typeName d)"
    and b: "list_all namedWithResultList (concat (map (declMembers typeName) rest))"
    by simp_all
  show ?case
  proof (cases d)
    case (GenDecl specs)
    with a have "list_all namedWithResultList (concat (map (specMembers typeName) specs))"
      by simp
    then show ?thesis
      using GenDecl by (simp add: specLoop_eq Cons.IH [OF b])
  qed (simp_all add: Cons.IH [OF b])
qed

lemma GetMethods_eq:
  "list_all namedWithResultList (interfaceMembers file typeName) \<Longrightarrow>
   GetMethods dump file typeName =
     Inr (map (toMethod dump) (filter isMethodMember (interfaceMembers file typeName)))"
  by (simp add: GetMethods_def interfaceMembers_def declLoop_eq)

lemma list_all2_toMethod:
  "list_all namedWithResultList fs \<Longrightarrow>
   list_all2 (methodOf dump) (filter isMethodMember fs) (map (toMethod dump) (filter isMethodMember fs))"
  by (induction fs) (simp_all add: methodOf_toMethod)

lemma methodLoop_Inr:
  "methodLoop dump out members = Inr r \<Longrightarrow> list_all namedWithResultList members"
proof (induction members arbitrary: out)
  case Nil
  then show ?case by simp
next
  case (Cons f fs)
  obtain ns t where f: "f = AstField ns t" by (cases f)
  show ?case
  proof (cases "isMethodMember f")
    case True
    then obtain ps rs where t: "t = FuncType ps rs"
      using f by (cases t) simp_all
    from Cons.prems f t obtain rl where rs: "rs = Some rl"
      by (cases rs) (simp_all add: extractParamsAndResults_def)
    from Cons.prems f t rs obtain n ns' where ns: "ns = n # ns'"
      by (cases ns) (simp_all add: extractParamsAndResults_def)
    from Cons.prems f t rs ns have "\<exists>out'. methodLoop dump out' fs = Inr r"
      by (auto simp: extractParamsAndResults_def)
    then have "list_all namedWithResultList fs" using Cons.IH by blast
    with f t rs ns show ?thesis by simp
  next
    case False
    with Cons.prems f have "methodLoop dump out fs = Inr r"
      by (cases t) simp_all
    then have "list_all namedWithResultList fs" by (rule Cons.IH)
    with False f show ?thesis by (cases t) simp_all
  qed
qed

lemma specLoop_Inr:
  "specLoop dump typeName out specs = Inr r \<Longrightarrow>
   list_all namedWithResultList (concat (map (specMembers typeName) specs))"
proof (induction specs arbitrary: out)
  case Nil
  then show ?case by simp
next
  case (Cons sp rest)
  from Cons.prems obtain out' where
    a: "methodLoop dump out (specMembers typeName sp) = Inr out'"
    and b: "specLoop dump typeName out' rest = Inr r"
    by (auto simp: specLoop_step split: sum.splits)
  from methodLoop_Inr [OF a] Cons.IH [OF b] show ?case by simp
qed

lemma declLoop_Inr:
  "declLoop dump typeName out decls = Inr r \<Longrightarrow>
   list_all namedWithResultList (concat (map (declMembers typeName) decls))"
proof (induction decls arbitrary: out)
  case Nil
  then show ?case by simp
next
  case (Cons d rest)
  show ?case
  proof (cases d)
    case (GenDecl specs)
    with Cons.prems obtain out' where
      a: "specLoop dump typeName out specs = Inr out'"
      and b: "declLoop dump typeName out' rest = Inr r"
      by (auto split: sum.splits)
    from specLoop_Inr [OF a] Cons.IH [OF b] GenDecl show ?thesis by simp
  next
    case (FuncDecl x)
    with Cons.prems have "declLoop dump typeName out rest = Inr r" by simp
    from Cons.IH [OF this] FuncDecl show ?thesis by simp
  next
    case BadDecl
    with Cons.prems have "declLoop dump typeName out rest = Inr r" by simp
    from Cons.IH [OF this] BadDecl show ?thesis by simp
  qed
qed

lemma GetMethods_Inr:
  "GetMethods dump file typeName = Inr ms \<Longrightarrow>
   list_all namedWithResultList (interfaceMembers file typeName)"
  unfolding GetMethods_def interfaceMembers_def by (rule declLoop_Inr)

text \<open>
  Claim C1, as the code has it. Whenever \<open>GetMethods\<close> returns for a file and a requested
  type name, it returns, in declared order, one \<open>Method\<close> for each member of the interface
  declarations of that name that is a method; a member that embeds another type
  contributes nothing. Each \<open>Method\<close> has the declared name and as many parameter and
  result slots as the declaration, in the same order, every slot with its declared
  sequence of names (empty for an anonymous slot) and the text of its type; signatures
  with no parameter slot, and with an empty result list, are included. \<open>GetMethods\<close> does
  return for every file in which every method of the interface declarations of that name
  carries its name and has a result list.
\<close>

theorem GetMethods_methods_in_order:
  "(GetMethods dump file typeName = Inr ms \<longrightarrow>
      list_all2 (methodOf dump) (filter isMethodMember (interfaceMembers file typeName)) ms)
   \<and> (list_all namedWithResultList (interfaceMembers file typeName) \<longrightarrow>
        (\<exists>ms'. GetMethods dump file typeName = Inr ms'))"
proof -
  have "list_all2 (methodOf dump) (filter isMethodMember (interfaceMembers file typeName)) ms"
    if r: "GetMethods dump file typeName = Inr ms"
  proof -
    from GetMethods_Inr [OF r]
    have h: "list_all namedWithResultList (interfaceMembers file typeName)" .
    from GetMethods_eq [OF h, of dump] r
    have "ms = map (toMethod dump) (filter isMethodMember (interfaceMembers file typeName))"
      by simp
    with list_all2_toMethod [OF h, of dump] show ?thesis by simp
  qed
  then show ?thesis by (simp add: GetMethods_eq)
qed

text \<open>
  The theorem at the \<open>Reader\<close> interface of \<open>readerFile\<close>: three methods out of four
  members, among them one with no slots at all and one with anonymous slots.
\<close>

theorem GetMethods_methods_in_order_witness:
  "GetMethods noDump readerFile ''Reader'' =
       Inr [\<lparr>Name = ''Read'', Params = [\<lparr>Names = [''p''], Type = ''[]byte''\<rparr>],
               Results = [\<lparr>Names = [''n''], Type = ''int''\<rparr>, \<lparr>Names = [''err''], Type = ''error''\<rparr>]\<rparr>,
            \<lparr>Name = ''Reset'', Params = [], Results = []\<rparr>,
            \<lparr>Name = ''Peek'', Params = [\<lparr>Names = [], Type = ''int''\<rparr>],
               Results = [\<lparr>Names = [], Type = ''[]byte''\<rparr>, \<lparr>Names = [], Type = ''error''\<rparr>]\<rparr>]
   \<and> list_all namedWithResultList (interfaceMembers readerFile ''Reader'')
   \<and> list_all2 (methodOf noDump) (filter isMethodMember (interfaceMembers readerFile ''Reader''))
         [\<lparr>Name = ''Read'', Params = [\<lparr>Names = [''p''], Type = ''[]byte''\<rparr>],
               Results = [\<lparr>Names = [''n''], Type = ''int''\<rparr>, \<lparr>Names = [''err''], Type = ''error''\<rparr>]\<rparr>,
          \<lparr>Name = ''Reset'', Params = [], Results = []\<rparr>,
          \<lparr>Name = ''Peek'', Params = [\<lparr>Names = [], Type = ''int''\<rparr>],
               Results = [\<lparr>Names = [], Type = ''[]byte''\<rparr>, \<lparr>Names = [], Type = ''error''\<rparr>]\<rparr>]
   \<and> (\<exists>ms'. GetMethods noDump readerFile ''Reader'' = Inr ms')
   \<and> length (interfaceMembers readerFile ''Reader'') = 4"
proof -
  have h: "list_all namedWithResultList (interfaceMembers readerFile ''Reader'')"
    by (simp add: interfaceMembers_def readerFile_def)
  have n: "length (interfaceMembers readerFile ''Reader'') = 4"
    by (simp add: interfaceMembers_def readerFile_def)
  have v: "GetMethods noDump readerFile ''Reader'' =
       Inr [\<lparr>Name = ''Read'', Params = [\<lparr>Names = [''p''], Type = ''[]byte''\<rparr>],
               Results = [\<lparr>Names = [''n''], Type = ''int''\<rparr>, \<lparr>Names = [''err''], Type = ''error''\<rparr>]\<rparr>,
            \<lparr>Name = ''Reset'', Params = [], Results = []\<rparr>,
            \<lparr>Name = ''Peek'', Params = [\<lparr>Names = [], Type = ''int''\<rparr>],
               Results = [\<lparr>Names = [], Type = ''[]byte''\<rparr>, \<lparr>Names = [], Type = ''error''\<rparr>]\<rparr>]"
    by (simp add: GetMethods_def readerFile_def extractParamsAndResults_def
        extractFieldsFromAst_def copyNames_def)
  from GetMethods_methods_in_order [of noDump readerFile "''Reader''"] h n v
  show ?thesis by blast
qed

text \<open>
  One \<open>Method\<close> per member fails where a member embeds a type: \<open>ReadCloser\<close> has two
  members and one extracted method.
\<close>

theorem GetMethods_embedded_counterexample:
  "GetMethods noDump readCloserFile ''ReadCloser'' =
     Inr [\<lparr>Name = ''Close'', Params = [], Results = [\<lparr>Names = [], Type = ''error''\<rparr>]\<rparr>]
   \<and> length (interfaceMembers readCloserFile ''ReadCloser'') = 2"
  by (simp add: GetMethods_def readCloserFile_def interfaceMembers_def
      extractParamsAndResults_def extractFieldsFromAst_def copyNames_def)

text \<open>
  A method declared without a result list, as in \<^verbatim>\<open>Close()\<close>, has a nil \<^verbatim>\<open>Results\<close>
  pointer, and reading its list panics.
\<close>

lemma GetMethods_no_result_list:
  "GetMethods noDump closerFile ''Closer'' = Inl NilDereference"
  by (simp add: GetMethods_def closerFile_def extractParamsAndResults_def)

section \<open>Properties of the generator\<close>

lemma strings_Join_Cons:
  "strings_Join (e # es) sep = (if es = [] then e else e @ sep @ strings_Join es sep)"
  by (cases es) simp_all

lemma splitFrom_not_Nil: "splitFrom sep cur s \<noteq> []"
  by (induction s arbitrary: cur) simp_all

lemma splitFrom_Join: "strings_Join (splitFrom sep cur s) [sep] = cur @ s"
  by (induction s arbitrary: cur) (simp_all add: strings_Join_Cons splitFrom_not_Nil)

lemma splitFrom_no_sep:
  "sep \<notin> set cur \<Longrightarrow> \<forall>t \<in> set (splitFrom sep cur s). sep \<notin> set t"
proof (induction s arbitrary: cur)
  case Nil
  then show ?case by simp
next
  case (Cons c s)
  have a: "\<forall>t \<in> set (splitFrom sep [] s). sep \<notin> set t"
    by (rule Cons.IH) simp
  have b: "c \<noteq> sep \<Longrightarrow> \<forall>t \<in> set (splitFrom sep (cur @ [c]) s). sep \<notin> set t"
    by (rule Cons.IH) (use Cons.prems in simp)
  from a b Cons.prems show ?case by simp
qed

lemma splitFrom_length: "length (splitFrom sep cur s) = Suc (count_list s sep)"
  by (induction s arbitrary: cur) simp_all

lemma splitFrom_append_sep:
  "splitFrom sep cur (a @ sep # b) = splitFrom sep cur a @ splitFrom sep [] b"
  by (induction a arbitrary: cur) simp_all

lemma Split_append_sep: "Split (a @ sep # b) sep = Split a sep @ Split b sep"
  by (simp add: Split_def splitFrom_append_sep)

lemma findLoop_keeps:
  "findLoop e g fs = Inr g' \<Longrightarrow>
   pkg g' = pkg g \<and> buf g' = buf g \<and> TypeName (data g') = TypeName (data g)
   \<and> TemplateFile (data g') = TemplateFile (data g) \<and> OutputFile (data g') = OutputFile (data g)
   \<and> PackageName (data g') = PackageName (data g) \<and> Extras (data g') = Extras (data g)"
proof (induction fs arbitrary: g)
  case Nil
  then show ?case by simp
next
  case (Cons f fs)
  then show ?case
    by (auto simp: Let_def split: sum.splits if_splits dest!: Cons.IH)
qed

lemma buildTemplateData_result:
  assumes "buildTemplateData e g extras = Inr g'"
  shows "\<exists>p. pkg g = Some p \<and> pkg g' = Some p \<and> PackageName (data g') = pkgName p
           \<and> Extras (data g') = Split extras CHR '',''
           \<and> OutputFile (data g') = OutputFile (data g) \<and> buf g' = buf g"
  using assms
  by (auto simp: buildTemplateData_def findTypeFields_def Let_def
      split: sum.splits option.splits dest!: findLoop_keeps)

lemma Build_render_result:
  assumes "Build_render e g w dir typeName templateFile outputFile extras = Inr g4"
  shows "\<exists>p. pkg g = Some p \<and> PackageName (data g4) = pkgName p
           \<and> Extras (data g4) = Split extras CHR '',''
           \<and> OutputFile (data g4) = outputFile"
  using assms
  by (auto simp: Build_render_def Let_def generate_def buildHeader_def
      split: sum.splits option.splits if_splits dest!: buildTemplateData_result)

lemma Build_Completed:
  assumes "Build e g w dir typeName templateFile outputFile extras = (Completed, g', w')"
  shows "Build_render e g w dir typeName templateFile outputFile extras = Inr g'"
  using assms
  by (auto simp: Build_def Build_render_def Let_def split: sum.splits option.splits prod.splits)

lemma parseLoop_Inr:
  "parseLoop e acc names = Inr parsed \<Longrightarrow>
   \<exists>fs. parsed = acc @ fs
      \<and> list_all2 (\<lambda>n f. ParseFile e n = Inr f) (filter (\<lambda>n. HasSuffix n ''.go'') names) fs"
proof (induction names arbitrary: acc)
  case Nil
  then show ?case by simp
next
  case (Cons n names)
  show ?case
  proof (cases "HasSuffix n ''.go''")
    case False
    with Cons show ?thesis by simp
  next
    case True
    with Cons.prems obtain f where f: "ParseFile e n = Inr f"
      and r: "parseLoop e (acc @ [f]) names = Inr parsed"
      by (auto split: sum.splits)
    from Cons.IH [OF r] obtain fs where "parsed = (acc @ [f]) @ fs"
      "list_all2 (\<lambda>n f. ParseFile e n = Inr f) (filter (\<lambda>n. HasSuffix n ''.go'') names) fs"
      by blast
    with True f show ?thesis by simp
  qed
qed

lemma parsePackage_Completed:
  assumes "parsePackage e g w directory names = (Completed, g1, w1)"
  shows "\<exists>n rest first others.
           filter (\<lambda>n. HasSuffix n ''.go'') names = n # rest
         \<and> ParseFile e n = Inr first
         \<and> list_all2 (\<lambda>n f. ParseFile e n = Inr f) rest others
         \<and> pkg g1 = Some \<lparr>pkgName = File.Name first, pkgDir = directory,
                            pkgFiles = first # others, astFiles = first # others\<rparr>"
proof -
  from assms obtain parsed where p: "parseLoop e [] names = Inr parsed"
    by (auto simp: parsePackage_def Let_def split: sum.splits prod.splits list.splits)
  with assms obtain first others where fo: "parsed = first # others"
    and g1: "pkg g1 = Some \<lparr>pkgName = File.Name first, pkgDir = directory,
                            pkgFiles = parsed, astFiles = parsed\<rparr>"
    by (auto simp: parsePackage_def Let_def split: list.splits)
  from parseLoop_Inr [OF p] fo
  have "list_all2 (\<lambda>n f. ParseFile e n = Inr f) (filter (\<lambda>n. HasSuffix n ''.go'') names) (first # others)"
    by simp
  then show ?thesis using g1 fo by (auto simp: list_all2_Cons2)
qed

text \<open>
  Claim C10. For every run that succeeds, that is, \<open>ParsePackageDir\<close> returns and \<open>Build\<close>
  then completes, the package name of the template data is the package name declared in
  the first parsed file: the file parsed from the first name with the suffix \<open>.go\<close> of the
  directory's file list. Nothing is asked of the package names of the other files.
\<close>

theorem PackageName_first_file:
  assumes "ParsePackageDir e g w directory = (Completed, g1, w1)"
    and "Build e g1 w' dir typeName templateFile outputFile extras = (Completed, g2, w2)"
  shows "\<exists>goFiles n rest first.
           ImportDir e directory = Inr goFiles
         \<and> filter (\<lambda>n. HasSuffix n ''.go'') (prefixDirectory directory goFiles) = n # rest
         \<and> ParseFile e n = Inr first
         \<and> PackageName (data g2) = File.Name first"
proof -
  from assms(1) obtain goFiles where i: "ImportDir e directory = Inr goFiles"
    and pp: "parsePackage e g w directory (prefixDirectory directory goFiles) = (Completed, g1, w1)"
    by (auto simp: ParsePackageDir_def split: sum.splits)
  from parsePackage_Completed [OF pp] obtain n rest first others where
    f: "filter (\<lambda>n. HasSuffix n ''.go'') (prefixDirectory directory goFiles) = n # rest"
    and pf: "ParseFile e n = Inr first"
    and g1: "pkg g1 = Some \<lparr>pkgName = File.Name first, pkgDir = directory,
                            pkgFiles = first # others, astFiles = first # others\<rparr>"
    by blast
  from Build_render_result [OF Build_Completed [OF assms(2)]] g1
  have "PackageName (data g2) = File.Name first" by auto
  with i f pf show ?thesis by blast
qed

text \<open>
  The theorem at the directory \<open>pkg\<close>, whose second file declares another package name.
\<close>

theorem PackageName_first_file_witness:
  "(\<exists>g1 w1 g2 w2.
      ParsePackageDir exampleEnv newGonerator exampleWorld ''pkg'' = (Completed, g1, w1)
    \<and> Build exampleEnv g1 exampleWorld ''pkg/'' ''Reader'' ''mock.tmpl'' ''reader_gen.go'' []
        = (Completed, g2, w2)
    \<and> PackageName (data g2) = ''stream'')
   \<and> ParseFile exampleEnv ''pkg/a.go'' = Inr readerFile
   \<and> ParseFile exampleEnv ''pkg/b.go'' = Inr otherFile
   \<and> File.Name readerFile = ''stream'' \<and> File.Name otherFile = ''stream_test''"
proof -
  have n: "File.Name readerFile = ''stream''"
    by (simp add: readerFile_def)
  have p: "ParsePackageDir exampleEnv newGonerator exampleWorld ''pkg''
             = (Completed, parsedGonerator, exampleWorld)"
    by (simp add: n ParsePackageDir_def parsePackage_def prefixDirectory_def exampleEnv_def
        HasSuffix_def parsedGonerator_def Clean_def isRooted_def cleanElems_def Split_def
        cleanStep_def renderPath_def)
  obtain out g2 w2 where b: "Build exampleEnv parsedGonerator exampleWorld ''pkg/'' ''Reader''
        ''mock.tmpl'' ''reader_gen.go'' [] = (out, g2, w2)"
    by (metis prod_cases3)
  have "fst (Build exampleEnv parsedGonerator exampleWorld ''pkg/'' ''Reader''
        ''mock.tmpl'' ''reader_gen.go'' []) = Completed"
    by code_simp
  with b have c: "Build exampleEnv parsedGonerator exampleWorld ''pkg/'' ''Reader''
        ''mock.tmpl'' ''reader_gen.go'' [] = (Completed, g2, w2)" by simp
  from PackageName_first_file [OF p c]
  have "PackageName (data g2) = ''stream''"
    by (auto simp: exampleEnv_def prefixDirectory_def HasSuffix_def Clean_def isRooted_def
        cleanElems_def Split_def cleanStep_def renderPath_def readerFile_def)
  with p c show ?thesis
    by (simp add: exampleEnv_def readerFile_def otherFile_def)
qed

text \<open>
  Claim C5. For every extras string, the \<open>Extras\<close> of the template data that
  \<open>buildTemplateData\<close> returns is the string split at its commas, and nothing else is
  done to it: the tokens joined by commas give the string back, no token holds a comma,
  and there is one token more than there are commas. For the empty string the sequence
  has exactly one element, the empty string; the sequence is never empty.
\<close>

theorem buildTemplateData_Extras:
  "(buildTemplateData e g extras = Inr g' \<longrightarrow> Extras (data g') = Split extras CHR '','')
   \<and> Split [] CHR '','' = [Nil]
   \<and> Split extras CHR '','' \<noteq> []
   \<and> strings_Join (Split extras CHR '','') '','' = extras
   \<and> (\<forall>t \<in> set (Split extras CHR '',''). CHR '','' \<notin> set t)
   \<and> length (Split extras CHR '','') = Suc (count_list extras CHR '','')"
proof -
  have "buildTemplateData e g extras = Inr g' \<longrightarrow> Extras (data g') = Split extras CHR '',''"
    using buildTemplateData_result by blast
  moreover have "\<forall>t \<in> set (Split extras CHR '',''). CHR '','' \<notin> set t"
    unfolding Split_def by (rule splitFrom_no_sep) simp
  ultimately show ?thesis
    by (simp add: Split_def splitFrom_not_Nil splitFrom_Join splitFrom_length)
qed

text \<open>The theorem at the empty extras string and at \<open>mock,,v2 \<close>.\<close>

theorem buildTemplateData_Extras_witness:
  "(\<exists>g'. buildTemplateData exampleEnv parsedGonerator [] = Inr g' \<and> Extras (data g') = [Nil])
   \<and> (\<exists>g'. buildTemplateData exampleEnv parsedGonerator ''mock,,v2 '' = Inr g'
          \<and> Extras (data g') = [''mock'', [], ''v2 ''])"
proof -
  have "case buildTemplateData exampleEnv parsedGonerator [] of Inl p \<Rightarrow> False | Inr g' \<Rightarrow> True"
    by code_simp
  then obtain g1 where a: "buildTemplateData exampleEnv parsedGonerator [] = Inr g1"
    by (auto split: sum.splits)
  have "case buildTemplateData exampleEnv parsedGonerator ''mock,,v2 '' of
          Inl p \<Rightarrow> False | Inr g' \<Rightarrow> True"
    by code_simp
  then obtain g2 where b: "buildTemplateData exampleEnv parsedGonerator ''mock,,v2 '' = Inr g2"
    by (auto split: sum.splits)
  have c: "Split ''mock,,v2 '' CHR '','' = [''mock'', [], ''v2 '']"
    by (simp add: Split_def)
  from a b c buildTemplateData_Extras [of exampleEnv parsedGonerator "[]" g1]
    buildTemplateData_Extras [of exampleEnv parsedGonerator "''mock,,v2 ''" g2]
  show ?thesis by simp
qed

lemma HasPrefix_Contains: "HasPrefix s sub \<Longrightarrow> Contains s sub"
  by (cases s) (simp_all add: HasPrefix_def)

lemma Contains_append: "Contains s sub \<Longrightarrow> Contains (pre @ s) sub"
  by (induction pre) simp_all

lemma HasSuffix_Contains: "HasSuffix s suf \<Longrightarrow> Contains s suf"
proof -
  assume h: "HasSuffix s suf"
  then have "s = take (length s - length suf) s @ suf"
    by (metis HasSuffix_def append_take_drop_id)
  moreover have "Contains suf suf"
    by (rule HasPrefix_Contains) (simp add: HasPrefix_def)
  ultimately show ?thesis
    by (metis Contains_append)
qed

lemma buildHeader_buf:
  "buf (buildHeader g) = buf g @ (if isGo (OutputFile (data g)) then headerText (data g) else [])"
  by (simp add: buildHeader_def)

lemma isGo_of_go_suffix: "HasSuffix filename ''.go'' \<Longrightarrow> isGo filename"
  unfolding isGo_def by (rule HasSuffix_Contains)

text \<open>
  Claim C4 asks for the header exactly when the destination is a Go source file. The test
  of the code is that \<open>.go\<close> occurs somewhere in the destination. Every destination with
  the suffix \<open>.go\<close> passes it (\<open>isGo_of_go_suffix\<close>), but so does a destination such as
  \<open>page.gohtml\<close>, which is not a Go source file: \<open>buildHeader\<close> writes the header for it,
  and the file that \<open>Build\<close> writes starts with the header.
\<close>

theorem buildHeader_gohtml:
  "\<not> HasSuffix ''page.gohtml'' ''.go''
   \<and> isGo ''page.gohtml''
   \<and> buf (buildHeader (newGonerator\<lparr>data := htmlData\<rparr>)) = headerText htmlData
   \<and> headerText htmlData \<noteq> []
   \<and> (case fileContent (snd (snd (Build exampleEnv parsedGonerator exampleWorld ''pkg/'' ''Page''
                ''mock.tmpl'' ''page.gohtml'' []))) ''pkg/page.gohtml'' of
         None \<Rightarrow> False
       | Some written \<Rightarrow> HasPrefix written (headerText htmlData))"
proof -
  have "case fileContent (snd (snd (Build exampleEnv parsedGonerator exampleWorld ''pkg/'' ''Page''
                ''mock.tmpl'' ''page.gohtml'' []))) ''pkg/page.gohtml'' of
         None \<Rightarrow> False
       | Some written \<Rightarrow> HasPrefix written (headerText htmlData)"
    by code_simp
  then show ?thesis
    by (simp add: HasSuffix_def isGo_def HasPrefix_def buildHeader_def htmlData_def emptyData_def
      newGonerator_def headerText_def)
qed

lemma templatePath_absolute:
  "HasPrefix templateFile ''/'' \<Longrightarrow> templatePath dir templateFile = templateFile"
  by (simp add: templatePath_def)

text \<open>
  Claim C8 asks that a relative template path is joined to the source directory by the
  path-joining rule. An absolute template path is used as given (\<open>templatePath_absolute\<close>),
  but for a relative one the code appends the template path to the directory text: for
  the directory \<open>/src/pkg\<close> the template \<open>mock.tmpl\<close> is looked for at \<open>/src/pkgmock.tmpl\<close>,
  and the run panics although \<open>/src/pkg/mock.tmpl\<close> exists.
\<close>

theorem Build_template_path:
  "templatePath ''/src/pkg'' ''mock.tmpl'' = ''/src/pkgmock.tmpl''
   \<and> filepath_Join [''/src/pkg'', ''mock.tmpl''] = ''/src/pkg/mock.tmpl''
   \<and> fileContent srcWorld ''/src/pkg/mock.tmpl'' = Some ''package stream''
   \<and> fst (Build exampleEnv parsedGonerator srcWorld ''/src/pkg'' ''Reader'' ''mock.tmpl''
            ''reader_gen.go'' []) = Panicked ReadFileError"
  by (simp add: templatePath_def HasPrefix_def Clean_def isRooted_def cleanElems_def Split_def
      cleanStep_def renderPath_def srcWorld_def Build_def Build_render_def)

lemma writeFile_format_failure:
  assumes "isGo filename" and "formatSource e (buf g) = Inl err"
    and "MkdirAll e (Dir (outputName e dir filename)) = None"
    and "WriteFile e (outputName e dir filename) = None"
  shows "writeFile e g w dir filename typeName =
           (Inr (Some err),
            w\<lparr>logged := logged w @ formatWarnings (OutputFile (data g)) err,
              fileContent := (fileContent w)(outputName e dir filename \<mapsto> buf g)\<rparr>)"
  using assms by (simp add: writeFile_def format_def)

text \<open>
  Claim C3, as the code has it. For every run that reaches \<open>writeFile\<close> with a Go
  destination, whose text the formatter rejects, and whose directory and file can be
  written: the two warnings are logged, the unformatted text is written to the
  destination, and the process then exits with status \<open>-1\<close>.
\<close>

theorem Build_format_failure:
  assumes "Build_render e g w dir typeName templateFile outputFile extras = Inr g4"
    and "isGo outputFile"
    and "formatSource e (buf g4) = Inl err"
    and "MkdirAll e (Dir (outputName e dir outputFile)) = None"
    and "WriteFile e (outputName e dir outputFile) = None"
  shows "Build e g w dir typeName templateFile outputFile extras =
           (Exited (- 1), g4,
            w\<lparr>logged := logged w @ formatWarnings outputFile err,
              fileContent := (fileContent w)(outputName e dir outputFile \<mapsto> buf g4)\<rparr>)"
proof -
  from Build_render_result [OF assms(1)] have "OutputFile (data g4) = outputFile"
    by blast
  with writeFile_format_failure [OF assms(2-5), where w = w and typeName = typeName] assms(1)
  show ?thesis by (simp add: Build_def)
qed

lemma writeFile_Inl:
  "writeFile e g w dir filename typeName = (Inl out, w') \<Longrightarrow> out = Exited 1"
  by (auto simp: writeFile_def Let_def split: option.splits prod.splits)

lemma writeFile_Inr_None:
  assumes "writeFile e g w dir filename typeName = (Inr None, w')" and "isGo filename"
  shows "\<exists>src. formatSource e (buf g) = Inr src"
  using assms
  by (auto simp: writeFile_def format_def Let_def split: sum.splits option.splits)

text \<open>A run that completes with a Go destination had its text accepted by the formatter.\<close>

lemma Build_Completed_formatted:
  assumes "Build e g w dir typeName templateFile outputFile extras = (Completed, g', w')"
    and "isGo outputFile"
  shows "\<exists>src. formatSource e (buf g') = Inr src"
proof -
  from Build_Completed [OF assms(1)] assms(1)
  have "\<exists>w1. writeFile e g' w dir outputFile typeName = (Inr None, w1)"
    by (auto simp: Build_def dest: writeFile_Inl split: sum.splits option.splits prod.splits)
  with assms(2) show ?thesis using writeFile_Inr_None by blast
qed

text \<open>The theorem at a run whose formatter rejects every text.\<close>

theorem Build_format_failure_witness:
  "\<exists>g4. Build_render rejectingEnv parsedGonerator exampleWorld ''pkg/'' ''Reader'' ''mock.tmpl''
           ''reader_gen.go'' [] = Inr g4
       \<and> isGo ''reader_gen.go''
       \<and> formatSource rejectingEnv (buf g4) = Inl ''1:1: expected package''
       \<and> MkdirAll rejectingEnv (Dir (outputName rejectingEnv ''pkg/'' ''reader_gen.go'')) = None
       \<and> WriteFile rejectingEnv (outputName rejectingEnv ''pkg/'' ''reader_gen.go'') = None
       \<and> Build rejectingEnv parsedGonerator exampleWorld ''pkg/'' ''Reader'' ''mock.tmpl''
           ''reader_gen.go'' [] =
           (Exited (- 1), g4,
            exampleWorld\<lparr>logged := logged exampleWorld
                            @ formatWarnings ''reader_gen.go'' ''1:1: expected package'',
              fileContent := (fileContent exampleWorld)
                               (outputName rejectingEnv ''pkg/'' ''reader_gen.go'' \<mapsto> buf g4)\<rparr>)"
proof -
  have "case Build_render rejectingEnv parsedGonerator exampleWorld ''pkg/'' ''Reader''
          ''mock.tmpl'' ''reader_gen.go'' [] of Inl x \<Rightarrow> False | Inr g4 \<Rightarrow> True"
    by code_simp
  then obtain g4 where r: "Build_render rejectingEnv parsedGonerator exampleWorld ''pkg/''
      ''Reader'' ''mock.tmpl'' ''reader_gen.go'' [] = Inr g4"
    by (auto split: sum.splits)
  have a: "isGo ''reader_gen.go''" by code_simp
  have b: "formatSource rejectingEnv (buf g4) = Inl ''1:1: expected package''"
    by (simp add: rejectingEnv_def)
  have c: "MkdirAll rejectingEnv (Dir (outputName rejectingEnv ''pkg/'' ''reader_gen.go'')) = None"
    by (simp add: rejectingEnv_def exampleEnv_def)
  have d: "WriteFile rejectingEnv (outputName rejectingEnv ''pkg/'' ''reader_gen.go'') = None"
    by (simp add: rejectingEnv_def exampleEnv_def)
  from Build_format_failure [OF r a b c d] r a b c d show ?thesis by blast
qed

text \<open>
  The run does not complete normally after a formatting failure: it ends with exit
  status \<open>-1\<close>, after the warnings and the write.
\<close>

theorem Build_format_failure_counterexample:
  "fst (Build rejectingEnv parsedGonerator exampleWorld ''pkg/'' ''Reader'' ''mock.tmpl''
          ''reader_gen.go'' []) = Exited (- 1)
   \<and> fst (Build rejectingEnv parsedGonerator exampleWorld ''pkg/'' ''Reader'' ''mock.tmpl''
          ''reader_gen.go'' []) \<noteq> Completed
   \<and> logged (snd (snd (Build rejectingEnv parsedGonerator exampleWorld ''pkg/'' ''Reader''
          ''mock.tmpl'' ''reader_gen.go'' []))) =
       [''[reader_gen.go] warning: internal error: invalid Go gonerated: 1:1: expected package'',
        ''[reader_gen.go] warning: compile the package to analyze the error'']
   \<and> fileContent (snd (snd (Build rejectingEnv parsedGonerator exampleWorld ''pkg/'' ''Reader''
          ''mock.tmpl'' ''reader_gen.go'' []))) ''pkg/reader_gen.go'' \<noteq> None"
  by code_simp

section \<open>Properties of the written path\<close>

lemma isRooted_append: "dir \<noteq> [] \<Longrightarrow> isRooted (dir @ rest) = isRooted dir"
  by (cases dir) (simp_all add: isRooted_def)

lemma filepath_Join_two:
  assumes "dir \<noteq> []"
  shows "filepath_Join [dir, f] =
           renderPath (isRooted dir)
             (foldl (cleanStep (isRooted dir)) (cleanElems dir) (Split f CHR ''/''))"
proof -
  have "filepath_Join [dir, f] = Clean (dir @ CHR ''/'' # f)"
    using assms by simp
  also have "\<dots> = renderPath (isRooted dir) (cleanElems (dir @ CHR ''/'' # f))"
    using assms by (simp add: Clean_def isRooted_append)
  also have "cleanElems (dir @ CHR ''/'' # f) =
      foldl (cleanStep (isRooted dir)) (cleanElems dir) (Split f CHR ''/'')"
    using assms by (simp add: cleanElems_def isRooted_append Split_append_sep)
  finally show ?thesis .
qed

lemma Clean_render: "dir \<noteq> [] \<Longrightarrow> Clean dir = renderPath (isRooted dir) (cleanElems dir)"
  by (simp add: Clean_def)

lemma foldl_cleanStep_no_dotdot:
  "''..'' \<notin> set els \<Longrightarrow>
   foldl (cleanStep r) st els = st @ filter (\<lambda>el. el \<noteq> [] \<and> el \<noteq> ''.'') els"
  by (induction els arbitrary: st) (auto simp: cleanStep_def)

lemma Split_Cons_sep: "Split (sep # s) sep = [] # Split s sep"
  by (simp add: Split_def)

lemma filepath_Join_absolute:
  "dir \<noteq> [] \<Longrightarrow> filepath_Join [dir, CHR ''/'' # f] = filepath_Join [dir, f]"
proof -
  assume d: "dir \<noteq> []"
  show ?thesis
    unfolding filepath_Join_two [OF d] Split_Cons_sep by (simp add: cleanStep_def)
qed

lemma of_char_lowerByte:
  "(of_char (lowerByte c) :: nat) =
     (if (65::nat) \<le> of_char c \<and> of_char c \<le> (90::nat) then of_char c + 32 else of_char c)"
  by (simp add: lowerByte_def)

lemma lowerByte_slash: "lowerByte c = CHR ''/'' \<longleftrightarrow> c = CHR ''/''"
proof
  assume "lowerByte c = CHR ''/''"
  then have "(of_char (lowerByte c) :: nat) = of_char CHR ''/''" by simp
  then have "of_char (lowerByte c) = (47::nat)" by simp
  then have "of_char c = (47::nat)"
    by (simp add: of_char_lowerByte split: if_splits)
  then have "of_char c = (of_char CHR ''/'' :: nat)" by simp
  then show "c = CHR ''/''" by (simp only: of_char_eq_iff)
next
  assume "c = CHR ''/''"
  then show "lowerByte c = CHR ''/''" by (simp add: lowerByte_def)
qed

lemma splitFrom_map:
  assumes "\<And>c. h c = sep \<longleftrightarrow> c = sep"
  shows "splitFrom sep (map h cur) (map h s) = map (map h) (splitFrom sep cur s)"
proof (induction s arbitrary: cur)
  case Nil
  show ?case by simp
next
  case (Cons c s)
  have "splitFrom sep (map h (cur @ [c])) (map h s) = map (map h) (splitFrom sep (cur @ [c]) s)"
    by (rule Cons.IH)
  moreover have "splitFrom sep (map h []) (map h s) = map (map h) (splitFrom sep [] s)"
    by (rule Cons.IH)
  ultimately show ?case using assms by simp
qed

lemma Split_ToLower:
  "list_all isASCII f \<Longrightarrow>
   Split (ToLower umap f) CHR ''/'' = map (map lowerByte) (Split f CHR ''/'')"
  using splitFrom_map [of lowerByte "CHR ''/''" "[]" f]
  by (simp add: ToLower_def Split_def lowerByte_slash)

lemma writeFile_written:
  assumes "MkdirAll e (Dir (outputName e dir filename)) = None"
    and "WriteFile e (outputName e dir filename) = None"
  shows "\<exists>errOut src.
           fst (writeFile e g w dir filename typeName) = Inr errOut
         \<and> fileContent (snd (writeFile e g w dir filename typeName))
             = (fileContent w)(outputName e dir filename \<mapsto> src)"
  using assms
  by (auto simp: writeFile_def format_def Let_def split: sum.splits prod.splits)

text \<open>
  Claim C7, as the code has it. When the directory can be created and the file written,
  \<open>writeFile\<close> writes exactly one path: the source directory joined with the lower-cased
  \<open>filename\<close> argument. The argument is lower-cased as a whole: for an ASCII argument and
  a non-empty directory, the written path is made of the elements of the directory, as
  they are, followed by every element of the argument lower-cased, directory elements
  of the argument included.
\<close>

theorem writeFile_lowers_argument:
  assumes "MkdirAll e (Dir (outputName e dir filename)) = None"
    and "WriteFile e (outputName e dir filename) = None"
  shows "(\<exists>errOut src.
            fst (writeFile e g w dir filename typeName) = Inr errOut
          \<and> fileContent (snd (writeFile e g w dir filename typeName))
              = (fileContent w)(filepath_Join [dir, ToLower (unicodeLower e) filename] \<mapsto> src))
       \<and> (dir \<noteq> [] \<and> list_all isASCII filename \<longrightarrow>
            filepath_Join [dir, ToLower (unicodeLower e) filename] =
              renderPath (isRooted dir)
                (foldl (cleanStep (isRooted dir)) (cleanElems dir)
                   (map (map lowerByte) (Split filename CHR ''/''))))"
proof -
  have "\<exists>errOut src.
          fst (writeFile e g w dir filename typeName) = Inr errOut
        \<and> fileContent (snd (writeFile e g w dir filename typeName))
            = (fileContent w)(filepath_Join [dir, ToLower (unicodeLower e) filename] \<mapsto> src)"
    using writeFile_written [OF assms] unfolding outputName_def .
  moreover have "filepath_Join [dir, ToLower (unicodeLower e) filename] =
      renderPath (isRooted dir)
        (foldl (cleanStep (isRooted dir)) (cleanElems dir)
           (map (map lowerByte) (Split filename CHR ''/'')))"
    if "dir \<noteq> []" and "list_all isASCII filename"
    unfolding filepath_Join_two [OF that(1)] Split_ToLower [OF that(2)] by (rule refl)
  ultimately show ?thesis by blast
qed

text \<open>
  The theorem at the directory \<open>/Src/Pkg\<close> and the argument \<open>Gen/Out.txt\<close>: the directory
  keeps its capitals, both elements of the argument lose theirs.
\<close>

theorem writeFile_lowers_argument_witness:
  "MkdirAll exampleEnv (Dir (outputName exampleEnv ''/Src/Pkg'' ''Gen/Out.txt'')) = None
   \<and> WriteFile exampleEnv (outputName exampleEnv ''/Src/Pkg'' ''Gen/Out.txt'') = None
   \<and> ''/Src/Pkg'' \<noteq> [] \<and> list_all isASCII ''Gen/Out.txt''
   \<and> (\<exists>errOut src.
         fst (writeFile exampleEnv parsedGonerator exampleWorld ''/Src/Pkg'' ''Gen/Out.txt'' ''T'')
           = Inr errOut
       \<and> fileContent (snd (writeFile exampleEnv parsedGonerator exampleWorld ''/Src/Pkg''
                              ''Gen/Out.txt'' ''T''))
           = (fileContent exampleWorld)(''/Src/Pkg/gen/out.txt'' \<mapsto> src))"
proof -
  have a: "MkdirAll exampleEnv (Dir (outputName exampleEnv ''/Src/Pkg'' ''Gen/Out.txt'')) = None"
    by (simp add: exampleEnv_def)
  have b: "WriteFile exampleEnv (outputName exampleEnv ''/Src/Pkg'' ''Gen/Out.txt'') = None"
    by (simp add: exampleEnv_def)
  have c: "list_all isASCII ''Gen/Out.txt''"
    by (simp add: isASCII_def)
  have d: "renderPath (isRooted ''/Src/Pkg'')
             (foldl (cleanStep (isRooted ''/Src/Pkg'')) (cleanElems ''/Src/Pkg'')
                (map (map lowerByte) (Split ''Gen/Out.txt'' CHR ''/''))) = ''/Src/Pkg/gen/out.txt''"
    by code_simp
  from writeFile_lowers_argument [OF a b, of parsedGonerator exampleWorld "''T''"] a b c d
  show ?thesis by (auto simp del: filepath_Join.simps)
qed

text \<open>
  A directory component of the destination is changed: for \<open>Gen/Out.txt\<close> in \<open>/src\<close> the
  file is written in \<open>/src/gen\<close>, not in the directory \<open>/src/Gen\<close> of the destination.
\<close>

theorem writeFile_directory_counterexample:
  "fileContent (snd (writeFile exampleEnv parsedGonerator exampleWorld ''/src'' ''Gen/Out.txt''
                       ''T'')) ''/src/gen/out.txt'' = Some []
   \<and> fileContent (snd (writeFile exampleEnv parsedGonerator exampleWorld ''/src'' ''Gen/Out.txt''
                       ''T'')) ''/src/Gen/out.txt'' = None
   \<and> Dir ''/src/gen/out.txt'' = ''/src/gen''
   \<and> Dir (filepath_Join [''/src'', ''Gen/Out.txt'']) = ''/src/Gen''"
  by code_simp

text \<open>
  Claim C9, as the code has it. When the directory can be created and the file written,
  the one path written is the source directory joined with the lower-cased \<open>filename\<close>
  argument. For a non-empty source directory, a leading slash of the argument changes
  nothing, so an absolute argument is taken relative to the source directory; and when
  the argument has no \<open>..\<close> element, the written path is the cleaned source directory
  followed by the non-empty, non-dot elements of the argument, hence beneath it.
\<close>

theorem writeFile_under_directory:
  assumes "MkdirAll e (Dir (outputName e dir filename)) = None"
    and "WriteFile e (outputName e dir filename) = None"
  shows "(\<exists>errOut src.
            fst (writeFile e g w dir filename typeName) = Inr errOut
          \<and> fileContent (snd (writeFile e g w dir filename typeName))
              = (fileContent w)(filepath_Join [dir, ToLower (unicodeLower e) filename] \<mapsto> src))
       \<and> (dir \<noteq> [] \<longrightarrow>
            filepath_Join [dir, CHR ''/'' # ToLower (unicodeLower e) filename]
              = filepath_Join [dir, ToLower (unicodeLower e) filename])
       \<and> (dir \<noteq> [] \<and> ''..'' \<notin> set (Split (ToLower (unicodeLower e) filename) CHR ''/'') \<longrightarrow>
            filepath_Join [dir, ToLower (unicodeLower e) filename] =
              renderPath (isRooted dir)
                (cleanElems dir
                 @ filter (\<lambda>el. el \<noteq> [] \<and> el \<noteq> ''.'')
                     (Split (ToLower (unicodeLower e) filename) CHR ''/''))
          \<and> Clean dir = renderPath (isRooted dir) (cleanElems dir))"
proof -
  have "\<exists>errOut src.
          fst (writeFile e g w dir filename typeName) = Inr errOut
        \<and> fileContent (snd (writeFile e g w dir filename typeName))
            = (fileContent w)(filepath_Join [dir, ToLower (unicodeLower e) filename] \<mapsto> src)"
    using writeFile_written [OF assms] unfolding outputName_def .
  moreover have "filepath_Join [dir, ToLower (unicodeLower e) filename] =
      renderPath (isRooted dir)
        (cleanElems dir
         @ filter (\<lambda>el. el \<noteq> [] \<and> el \<noteq> ''.'')
             (Split (ToLower (unicodeLower e) filename) CHR ''/''))"
    if "dir \<noteq> []" and "''..'' \<notin> set (Split (ToLower (unicodeLower e) filename) CHR ''/'')"
    unfolding filepath_Join_two [OF that(1)] foldl_cleanStep_no_dotdot [OF that(2)]
    by (rule refl)
  ultimately show ?thesis
    by (simp add: filepath_Join_absolute Clean_render del: filepath_Join.simps)
qed

text \<open>The theorem at the directory \<open>/home/u/pkg\<close> and the absolute argument \<open>/Abs/X.txt\<close>.\<close>

theorem writeFile_under_directory_witness:
  "MkdirAll exampleEnv (Dir (outputName exampleEnv ''/home/u/pkg'' ''/Abs/X.txt'')) = None
   \<and> WriteFile exampleEnv (outputName exampleEnv ''/home/u/pkg'' ''/Abs/X.txt'') = None
   \<and> ''/home/u/pkg'' \<noteq> []
   \<and> ''..'' \<notin> set (Split (ToLower (unicodeLower exampleEnv) ''/Abs/X.txt'') CHR ''/'')
   \<and> (\<exists>errOut src.
         fst (writeFile exampleEnv parsedGonerator exampleWorld ''/home/u/pkg'' ''/Abs/X.txt'' ''T'')
           = Inr errOut
       \<and> fileContent (snd (writeFile exampleEnv parsedGonerator exampleWorld ''/home/u/pkg''
                              ''/Abs/X.txt'' ''T''))
           = (fileContent exampleWorld)(''/home/u/pkg/abs/x.txt'' \<mapsto> src))
   \<and> Clean ''/home/u/pkg'' = ''/home/u/pkg''"
proof -
  have a: "MkdirAll exampleEnv (Dir (outputName exampleEnv ''/home/u/pkg'' ''/Abs/X.txt'')) = None"
    by (simp add: exampleEnv_def)
  have b: "WriteFile exampleEnv (outputName exampleEnv ''/home/u/pkg'' ''/Abs/X.txt'') = None"
    by (simp add: exampleEnv_def)
  have c: "''..'' \<notin> set (Split (ToLower (unicodeLower exampleEnv) ''/Abs/X.txt'') CHR ''/'')"
    by code_simp
  have d: "renderPath (isRooted ''/home/u/pkg'')
             (cleanElems ''/home/u/pkg''
              @ filter (\<lambda>el. el \<noteq> [] \<and> el \<noteq> ''.'')
                  (Split (ToLower (unicodeLower exampleEnv) ''/Abs/X.txt'') CHR ''/''))
           = ''/home/u/pkg/abs/x.txt''"
    by code_simp
  have f: "renderPath (isRooted ''/home/u/pkg'') (cleanElems ''/home/u/pkg'') = ''/home/u/pkg''"
    by code_simp
  from writeFile_under_directory [OF a b, of parsedGonerator exampleWorld "''T''"] a b c d f
  show ?thesis by (auto simp del: filepath_Join.simps)
qed

text \<open>
  With \<open>..\<close> elements in the argument the written path leaves the source directory.
\<close>

theorem writeFile_dotdot_counterexample:
  "fileContent (snd (writeFile exampleEnv parsedGonerator exampleWorld ''/home/u/pkg''
                       ''../../etc/x.txt'' ''T'')) ''/home/etc/x.txt'' = Some []
   \<and> outputName exampleEnv ''/home/u/pkg'' ''../../etc/x.txt'' = ''/home/etc/x.txt''
   \<and> \<not> HasPrefix ''/home/etc/x.txt'' ''/home/u/pkg''"
  by code_simp

end
